theory Spec2Isabelle
  imports
    Main
    "HOL-Library.Stream"
    "HOL-Library.AList"
    "HOL-Library.Multiset"
    "HOL-Library.Char_ord"
    "HOL-Library.List_Lexorder"
begin

section \<open>Values of the Python runtime\<close>

text \<open>
  A \<open>datetime\<close> is a naive point on the time line, counted in microseconds from
  0001-01-01T00:00:00 (the resolution of Python's \<open>datetime\<close>). The range limits of
  the type (\<open>OverflowError\<close> beyond year 9999) are not modelled. Strings are lists of
  characters with code points below 256.
\<close>

type_synonym datetime = int

definition timedelta :: "int \<Rightarrow> int" where
  \<comment> \<open>\<open>timedelta(days=n)\<close>\<close>
  "timedelta days = days * 86400000000"

definition date :: "datetime \<Rightarrow> int" where
  \<comment> \<open>\<open>d.date()\<close>, as a day number\<close>
  "date d = d div 86400000000"

definition datetime_max :: datetime where
  \<comment> \<open>\<open>datetime.max\<close>, 9999-12-31T23:59:59.999999\<close>
  "datetime_max = 3652059 * 86400000000 - 1"

text \<open>The values that occur in stored records and in keyword arguments.\<close>

datatype pyval = PNone | PStr string | PDatetime datetime

fun truthy :: "pyval \<Rightarrow> bool" where
  "truthy PNone = False"
| "truthy (PStr s) = (s \<noteq> [])"
| "truthy (PDatetime d) = True"

type_synonym pydict = "(string \<times> pyval) list"

definition dict_get :: "pydict \<Rightarrow> string \<Rightarrow> pyval \<Rightarrow> pyval" where
  \<comment> \<open>\<open>data.get(key, default)\<close>\<close>
  "dict_get data key dflt = (case map_of data key of Some v \<Rightarrow> v | None \<Rightarrow> dflt)"

text \<open>
  \<open>datetime.isoformat\<close> and \<open>datetime.fromisoformat\<close> belong to the standard
  library; they are parameters of the model. \<open>fromisoformat\<close> gives \<open>None\<close> where
  Python raises \<open>ValueError\<close>. So are the names of the attributes that an instance of
  a class has without the class body defining them (those inherited from \<open>object\<close>
  and those set when the class is created): they differ between versions of Python.
\<close>

record stdlib =
  isoformat :: "datetime \<Rightarrow> string"
  fromisoformat :: "string \<Rightarrow> datetime option"
  implicit_attrs :: "string list"

definition isspace :: "char \<Rightarrow> bool" where
  "isspace c = (let n = (of_char c :: nat) in
     (9 \<le> n \<and> n \<le> 13) \<or> (28 \<le> n \<and> n \<le> 32) \<or> n = 133 \<or> n = 160)"

definition strip :: "string \<Rightarrow> string" where
  \<comment> \<open>\<open>s.strip()\<close>\<close>
  "strip s = rev (dropWhile isspace (rev (dropWhile isspace s)))"

definition lower_char :: "char \<Rightarrow> char" where
  "lower_char c = (let n = (of_char c :: nat) in
     if (65 \<le> n \<and> n \<le> 90) \<or> (192 \<le> n \<and> n \<le> 222 \<and> n \<noteq> 215)
     then char_of (n + 32) else c)"

definition lower :: "string \<Rightarrow> string" where
  \<comment> \<open>\<open>s.lower()\<close>\<close>
  "lower s = map lower_char s"

fun contains :: "string \<Rightarrow> string \<Rightarrow> bool" where
  \<comment> \<open>\<open>sub in s\<close>\<close>
  "contains sub [] = (sub = [])"
| "contains sub (c # cs) = (take (length sub) (c # cs) = sub \<or> contains sub cs)"

definition quote :: string where
  "quote = [CHR 0x27]"

function str_nat :: "nat \<Rightarrow> string" where
  \<comment> \<open>\<open>str(n)\<close> for a length\<close>
  "str_nat n =
     (if n < 10 then [char_of (48 + n)]
      else str_nat (n div 10) @ [char_of (48 + n mod 10)])"
  by pat_completeness auto
termination
  by (relation "measure id") auto

declare str_nat.simps [simp del]

section \<open>The world outside the program\<close>

text \<open>
  The system clock, the random source of \<open>uuid.uuid4\<close> and the file system are
  explicit state. \<open>clock\<close> holds the readings that successive calls of
  \<open>datetime.now()\<close> will return, \<open>uuid4\<close> the strings that successive calls of
  \<open>str(uuid.uuid4())\<close> will return, \<open>writes\<close> the fate of successive attempts to
  write a tasks file, and \<open>files\<close> the tasks file of each user.
\<close>

datatype tasks_file = Missing | Json "pydict list" | Garbled

datatype write_result = Written | Refused | Torn

record world =
  clock :: "datetime stream"
  uuid4 :: "string stream"
  writes :: "write_result stream"
  files :: "string \<Rightarrow> tasks_file"

definition now :: "world \<Rightarrow> datetime \<times> world" where
  \<comment> \<open>\<open>datetime.now()\<close>\<close>
  "now w = (shd (clock w), w\<lparr>clock := stl (clock w)\<rparr>)"

definition new_uuid :: "world \<Rightarrow> string \<times> world" where
  \<comment> \<open>\<open>str(uuid.uuid4())\<close>\<close>
  "new_uuid w = (shd (uuid4 w), w\<lparr>uuid4 := stl (uuid4 w)\<rparr>)"

section \<open>database.py: the tasks file of a user\<close>

text \<open>
  \<open>save_user_tasks\<close> catches every exception of its body and returns \<open>False\<close>. The
  write is \<open>Written\<close>, or fails before the file is opened (\<open>Refused\<close>, the file keeps
  its content), or fails after the file was opened for writing (\<open>Torn\<close>, the file is
  left without a complete JSON document). The backup copies are not modelled.
\<close>

definition serializable :: "stdlib \<Rightarrow> pydict \<Rightarrow> pydict" where
  "serializable L task =
     map (\<lambda>(key, v). (key, case v of PDatetime d \<Rightarrow> PStr (isoformat L d) | _ \<Rightarrow> v)) task"

definition save_user_tasks :: "stdlib \<Rightarrow> string \<Rightarrow> pydict list \<Rightarrow> world \<Rightarrow> bool \<times> world" where
  "save_user_tasks L username tasks_data w =
     (let w1 = w\<lparr>writes := stl (writes w)\<rparr> in
      case shd (writes w) of
        Written \<Rightarrow> (True, w1\<lparr>files := (files w1)(username := Json (map (serializable L) tasks_data))\<rparr>)
      | Refused \<Rightarrow> (False, w1)
      | Torn \<Rightarrow> (False, w1\<lparr>files := (files w1)(username := Garbled)\<rparr>))"

definition revive_dates :: "stdlib \<Rightarrow> pydict \<Rightarrow> pydict" where
  \<comment> \<open>the loop ``Convert date strings back to datetime objects''\<close>
  "revive_dates L task =
     map (\<lambda>(key, v).
            case v of
              PStr s \<Rightarrow>
                if contains ''date'' (lower key)
                then (case fromisoformat L s of Some d \<Rightarrow> (key, PDatetime d) | None \<Rightarrow> (key, v))
                else (key, v)
            | _ \<Rightarrow> (key, v)) task"

definition load_user_tasks :: "stdlib \<Rightarrow> string \<Rightarrow> world \<Rightarrow> pydict list" where
  "load_user_tasks L username w =
     (case files w username of
        Missing \<Rightarrow> []
      | Garbled \<Rightarrow> []
      | Json tasks_data \<Rightarrow> map (revive_dates L) tasks_data)"

section \<open>task\_manager.py: class Task\<close>

text \<open>
  The fields carry the types of the annotations of \<open>Task.__init__\<close>. Python is
  dynamically typed: \<open>from_dict\<close> and \<open>update_task\<close> can store a value of another type in
  an attribute. Such a result has no image in the record; the model reports it as
  \<open>Untyped\<close> and says nothing more about it.
\<close>

record Task =
  id_t :: string
  name :: string
  priority :: string
  due_date :: "datetime option"
  category :: string
  status :: string
  description :: string
  created_at :: datetime
  updated_at :: datetime

datatype exn = KeyError string | AttributeError string | TypeError string

fun str_exn :: "exn \<Rightarrow> string" where
  \<comment> \<open>\<open>str(e)\<close>\<close>
  "str_exn (KeyError k) = quote @ k @ quote"
| "str_exn (AttributeError msg) = msg"
| "str_exn (TypeError msg) = msg"

datatype 'a outcome = Ok 'a | Raise exn | Untyped

definition Task_init ::
  "string \<Rightarrow> string \<Rightarrow> datetime option \<Rightarrow> string \<Rightarrow> string \<Rightarrow> string \<Rightarrow> world \<Rightarrow> Task \<times> world" where
  "Task_init name0 priority0 due_date0 category0 status0 description0 w =
     (let (u, w1) = new_uuid w;
          (c, w2) = now w1;
          (m, w3) = now w2;
          self = \<lparr>id_t = take 8 u, name = name0, priority = priority0, due_date = due_date0,
                  category = category0, status = status0, description = description0,
                  created_at = c, updated_at = m\<rparr>
      in case due_date0 of
           Some d \<Rightarrow> (self, w3)
         | None \<Rightarrow> (let (n, w4) = now w3 in (self\<lparr>due_date := Some (n + timedelta 7)\<rparr>, w4)))"

definition to_dict :: "stdlib \<Rightarrow> Task \<Rightarrow> pydict" where
  "to_dict L self =
     [(''id'', PStr (id_t self)),
      (''name'', PStr (name self)),
      (''priority'', PStr (priority self)),
      (''due_date'', case due_date self of Some d \<Rightarrow> PStr (isoformat L d) | None \<Rightarrow> PNone),
      (''category'', PStr (category self)),
      (''status'', PStr (status self)),
      (''description'', PStr (description self)),
      (''created_at'', PStr (isoformat L (created_at self))),
      (''updated_at'', PStr (isoformat L (updated_at self)))]"

fun parse_date :: "stdlib \<Rightarrow> pyval option \<Rightarrow> datetime option" where
  \<comment> \<open>\<open>if data.get(key): try: datetime.fromisoformat(data[key]) except (ValueError, TypeError): pass\<close>\<close>
  "parse_date L (Some (PStr s)) = (if s = [] then None else fromisoformat L s)"
| "parse_date L (Some (PDatetime d)) = None"
| "parse_date L (Some PNone) = None"
| "parse_date L None = None"

definition from_dict :: "stdlib \<Rightarrow> pydict \<Rightarrow> world \<Rightarrow> Task outcome \<times> world" where
  "from_dict L data w =
     (let due = parse_date L (map_of data ''due_date'');
          (n1, w1) = now w;
          created = (case parse_date L (map_of data ''created_at'') of Some d \<Rightarrow> d | None \<Rightarrow> n1);
          (n2, w2) = now w1;
          updated = (case parse_date L (map_of data ''updated_at'') of Some d \<Rightarrow> d | None \<Rightarrow> n2)
      in case map_of data ''name'' of
           None \<Rightarrow> (Raise (KeyError ''name''), w2)
         | Some nm \<Rightarrow>
            (case (nm, dict_get data ''priority'' (PStr ''Medium''),
                       dict_get data ''category'' (PStr ''General''),
                       dict_get data ''status'' (PStr ''Pending''),
                       dict_get data ''description'' (PStr '''')) of
               (PStr n, PStr p, PStr c, PStr s, PStr d) \<Rightarrow>
                 (let (task, w3) = Task_init n p due c s d w2 in
                  case dict_get data ''id'' (PStr (id_t task)) of
                    PStr i \<Rightarrow> (Ok (task\<lparr>id_t := i, created_at := created, updated_at := updated\<rparr>), w3)
                  | _ \<Rightarrow> (Untyped, w3))
             | _ \<Rightarrow> (Untyped, w2)))"

definition is_overdue :: "Task \<Rightarrow> world \<Rightarrow> bool \<times> world" where
  "is_overdue self w =
     (case due_date self of
        None \<Rightarrow> (False, w)
      | Some d \<Rightarrow>
          if status self = ''Completed'' then (False, w)
          else (let (n, w1) = now w in (d < n, w1)))"

section \<open>task\_manager.py: class TaskManager\<close>

record TaskManager =
  username :: string
  tasks :: "Task list"

fun from_dicts :: "stdlib \<Rightarrow> pydict list \<Rightarrow> world \<Rightarrow> Task list outcome \<times> world" where
  \<comment> \<open>\<open>[Task.from_dict(task_data) for task_data in tasks_data]\<close>\<close>
  "from_dicts L [] w = (Ok [], w)"
| "from_dicts L (task_data # rest) w =
     (case from_dict L task_data w of
        (Ok task, w1) \<Rightarrow>
          (case from_dicts L rest w1 of
             (Ok ts, w2) \<Rightarrow> (Ok (task # ts), w2)
           | (Raise e, w2) \<Rightarrow> (Raise e, w2)
           | (Untyped, w2) \<Rightarrow> (Untyped, w2))
      | (Raise e, w1) \<Rightarrow> (Raise e, w1)
      | (Untyped, w1) \<Rightarrow> (Untyped, w1))"

definition load_tasks :: "stdlib \<Rightarrow> TaskManager \<Rightarrow> world \<Rightarrow> TaskManager outcome \<times> world" where
  "load_tasks L self w =
     (case from_dicts L (load_user_tasks L (username self) w) w of
        (Ok ts, w1) \<Rightarrow> (Ok (self\<lparr>tasks := ts\<rparr>), w1)
      | (Raise e, w1) \<Rightarrow> (Raise e, w1)
      | (Untyped, w1) \<Rightarrow> (Untyped, w1))"

definition TaskManager_init :: "stdlib \<Rightarrow> string \<Rightarrow> world \<Rightarrow> TaskManager outcome \<times> world" where
  "TaskManager_init L username0 w = load_tasks L \<lparr>username = username0, tasks = []\<rparr> w"

definition save_tasks :: "stdlib \<Rightarrow> TaskManager \<Rightarrow> world \<Rightarrow> bool \<times> world" where
  "save_tasks L self w = save_user_tasks L (username self) (map (to_dict L) (tasks self)) w"

text \<open>
  A task object is identified by its position in \<open>self.tasks\<close>: no operation puts the
  same object into the list twice, and \<open>Task\<close> defines no \<open>__eq__\<close>, so
  \<open>self.tasks.remove(task)\<close> removes the object at the position it was found or
  appended at.
\<close>

definition remove_at :: "nat \<Rightarrow> 'a list \<Rightarrow> 'a list" where
  "remove_at i xs = take i xs @ drop (Suc i) xs"

definition add_task ::
  "stdlib \<Rightarrow> string \<Rightarrow> string \<Rightarrow> datetime option \<Rightarrow> string \<Rightarrow> string \<Rightarrow> TaskManager \<Rightarrow> world
     \<Rightarrow> (bool \<times> string) \<times> TaskManager \<times> world" where
  "add_task L name0 priority0 due_date0 category0 description0 self w =
     (if name0 = [] \<or> strip name0 = [] then ((False, ''Task name cannot be empty''), self, w)
      else if length (strip name0) > 200
      then ((False, ''Task name is too long (max 200 characters)''), self, w)
      else
        (let (task, w1) = Task_init (strip name0) priority0 due_date0 category0 ''Pending'' description0 w;
             self1 = self\<lparr>tasks := tasks self @ [task]\<rparr>;
             (saved, w2) = save_tasks L self1 w1
         in if saved
            then ((True, ''Task '' @ quote @ name0 @ quote @ '' added successfully''), self1, w2)
            else ((False, ''Failed to save task to database''),
                  self1\<lparr>tasks := remove_at (length (tasks self)) (tasks self1)\<rparr>, w2)))"

fun get_task_by_id :: "string \<Rightarrow> Task list \<Rightarrow> nat option" where
  \<comment> \<open>the position of the first task with that id\<close>
  "get_task_by_id task_id [] = None"
| "get_task_by_id task_id (task # rest) =
     (if id_t task = task_id then Some 0 else map_option Suc (get_task_by_id task_id rest))"

text \<open>
  \<open>hasattr(task, key)\<close>: the nine data attributes are fields of the record. The
  eight methods that the class body defines, and the implicit attributes of the
  instance, are attributes that the record cannot hold; the model does not follow an
  assignment to one of them and reports it as \<open>Untyped\<close>. Every other name is not an
  attribute of the task.
\<close>

datatype attr_kind = Field | Other_attr | No_attr

definition attr_kind :: "stdlib \<Rightarrow> string \<Rightarrow> attr_kind" where
  "attr_kind L key =
     (if key \<in> set [''id'', ''name'', ''priority'', ''due_date'', ''category'', ''status'',
                     ''description'', ''created_at'', ''updated_at''] then Field
      else if key \<in> set [''__init__'', ''__str__'', ''to_dict'', ''from_dict'', ''is_overdue'',
                          ''days_until_due'', ''get_priority_color'', ''get_status_icon'']
              \<or> key \<in> set (implicit_attrs L)
      then Other_attr
      else No_attr)"

definition hasattr :: "stdlib \<Rightarrow> string \<Rightarrow> bool" where
  "hasattr L key = (attr_kind L key \<noteq> No_attr)"

text \<open>
  \<open>setattr(task, key, value)\<close> for a value of the annotated type of the field. Python
  stores a value of any type, for instance the string \<open>''\<close> as due date; the record
  has no place for it, the result is \<open>None\<close>, and \<open>update_task\<close> is \<open>Untyped\<close>.
\<close>

definition setattr :: "Task \<Rightarrow> string \<Rightarrow> pyval \<Rightarrow> Task option" where
  "setattr task key v =
     (case v of
        PStr s \<Rightarrow>
          if key = ''id'' then Some (task\<lparr>id_t := s\<rparr>)
          else if key = ''name'' then Some (task\<lparr>name := s\<rparr>)
          else if key = ''priority'' then Some (task\<lparr>priority := s\<rparr>)
          else if key = ''category'' then Some (task\<lparr>category := s\<rparr>)
          else if key = ''status'' then Some (task\<lparr>status := s\<rparr>)
          else if key = ''description'' then Some (task\<lparr>description := s\<rparr>)
          else None
      | PDatetime d \<Rightarrow>
          if key = ''due_date'' then Some (task\<lparr>due_date := Some d\<rparr>)
          else if key = ''created_at'' then Some (task\<lparr>created_at := d\<rparr>)
          else if key = ''updated_at'' then Some (task\<lparr>updated_at := d\<rparr>)
          else None
      | PNone \<Rightarrow>
          if key = ''due_date'' then Some (task\<lparr>due_date := None\<rparr>) else None)"

fun set_attrs :: "stdlib \<Rightarrow> Task \<Rightarrow> (string \<times> pyval) list \<Rightarrow> Task option" where
  \<comment> \<open>\<open>for key, value in kwargs.items(): if hasattr(task, key) and value is not None: setattr(task, key, value)\<close>\<close>
  "set_attrs L task [] = Some task"
| "set_attrs L task ((key, v) # rest) =
     (if hasattr L key \<and> v \<noteq> PNone
      then (case setattr task key v of Some task1 \<Rightarrow> set_attrs L task1 rest | None \<Rightarrow> None)
      else set_attrs L task rest)"

definition validate_name :: "(string \<times> pyval) list \<Rightarrow> (bool \<times> string) + (string \<times> pyval) list" where
  \<comment> \<open>the block ``Validate name if provided''; \<open>Inl\<close> is an early return\<close>
  "validate_name kwargs =
     (case map_of kwargs ''name'' of
        None \<Rightarrow> Inr kwargs
      | Some v \<Rightarrow>
          if truthy v then
            (case v of
               PStr s \<Rightarrow>
                 (let name1 = strip s in
                  if name1 = [] then Inl (False, ''Task name cannot be empty'')
                  else if length name1 > 200
                  then Inl (False, ''Task name is too long (max 200 characters)'')
                  else Inr (AList.update ''name'' (PStr name1) kwargs))
             | _ \<Rightarrow>
                 Inl (False, ''Error updating task: '' @
                        str_exn (AttributeError (quote @ ''datetime.datetime'' @ quote @
                          '' object has no attribute '' @ quote @ ''strip'' @ quote))))
          else Inr kwargs)"

text \<open>
  \<open>kwargs\<close> lists the keyword arguments of a call \<open>update_task(task_id, **kwargs)\<close>
  in the order they are supplied. Python raises \<open>TypeError\<close> at the call, before
  the body runs, when a keyword is supplied twice and, otherwise, when a keyword is the
  name of one of the parameters \<open>self\<close> and \<open>task_id\<close>, which are bound already
  (the messages are those of CPython 3.11 for the module \<open>task_manager\<close>).
\<close>

fun first_repeat :: "string list \<Rightarrow> string list \<Rightarrow> string option" where
  "first_repeat seen [] = None"
| "first_repeat seen (k # ks) = (if k \<in> set seen then Some k else first_repeat (k # seen) ks)"

definition call_error :: "(string \<times> pyval) list \<Rightarrow> exn option" where
  "call_error kwargs =
     (case first_repeat [] (map fst kwargs) of
        Some k \<Rightarrow>
          Some (TypeError (''task_manager.TaskManager.update_task() got multiple values for keyword argument ''
                  @ quote @ k @ quote))
      | None \<Rightarrow>
          (case find (\<lambda>k. k = ''self'' \<or> k = ''task_id'') (map fst kwargs) of
             Some a \<Rightarrow>
               Some (TypeError (''TaskManager.update_task() got multiple values for argument ''
                       @ quote @ a @ quote))
           | None \<Rightarrow> None))"

definition update_task ::
  "stdlib \<Rightarrow> string \<Rightarrow> (string \<times> pyval) list \<Rightarrow> TaskManager \<Rightarrow> world
     \<Rightarrow> ((bool \<times> string) \<times> TaskManager \<times> world) outcome" where
  "update_task L task_id kwargs self w =
     (case call_error kwargs of
        Some e \<Rightarrow> Raise e
      | None \<Rightarrow>
     (case get_task_by_id task_id (tasks self) of
        None \<Rightarrow> Ok ((False, ''Task not found''), self, w)
      | Some i \<Rightarrow>
          (case validate_name kwargs of
             Inl res \<Rightarrow> Ok (res, self, w)
           | Inr kwargs1 \<Rightarrow>
               (case set_attrs L (tasks self ! i) kwargs1 of
                  None \<Rightarrow> Untyped
                | Some task1 \<Rightarrow>
                    (let (n, w1) = now w;
                         self1 = self\<lparr>tasks := (tasks self)[i := task1\<lparr>updated_at := n\<rparr>]\<rparr>;
                         (saved, w2) = save_tasks L self1 w1
                     in if saved then Ok ((True, ''Task updated successfully''), self1, w2)
                        else Ok ((False, ''Failed to save changes''), self1, w2))))))"

definition delete_task ::
  "stdlib \<Rightarrow> string \<Rightarrow> TaskManager \<Rightarrow> world \<Rightarrow> (bool \<times> string) \<times> TaskManager \<times> world" where
  "delete_task L task_id self w =
     (case get_task_by_id task_id (tasks self) of
        None \<Rightarrow> ((False, ''Task not found''), self, w)
      | Some i \<Rightarrow>
          (let task = tasks self ! i;
               task_name = name task;
               self1 = self\<lparr>tasks := remove_at i (tasks self)\<rparr>;
               (saved, w1) = save_tasks L self1 w
           in if saved
              then ((True, ''Task '' @ quote @ task_name @ quote @ '' deleted successfully''), self1, w1)
              else ((False, ''Failed to save changes''), self1\<lparr>tasks := tasks self1 @ [task]\<rparr>, w1)))"

definition mark_completed ::
  "stdlib \<Rightarrow> string \<Rightarrow> TaskManager \<Rightarrow> world \<Rightarrow> ((bool \<times> string) \<times> TaskManager \<times> world) outcome" where
  "mark_completed L task_id self w = update_task L task_id [(''status'', PStr ''Completed'')] self w"

definition mark_pending ::
  "stdlib \<Rightarrow> string \<Rightarrow> TaskManager \<Rightarrow> world \<Rightarrow> ((bool \<times> string) \<times> TaskManager \<times> world) outcome" where
  "mark_pending L task_id self w = update_task L task_id [(''status'', PStr ''Pending'')] self w"

definition get_tasks_by_status :: "string option \<Rightarrow> TaskManager \<Rightarrow> Task list" where
  "get_tasks_by_status status0 self =
     (case status0 of
        None \<Rightarrow> tasks self
      | Some s \<Rightarrow> if s = [] then tasks self else filter (\<lambda>task. status task = s) (tasks self))"

fun overdue_among :: "Task list \<Rightarrow> world \<Rightarrow> Task list \<times> world" where
  \<comment> \<open>\<open>[task for task in self.tasks if task.is_overdue() and task.status != 'Completed']\<close>\<close>
  "overdue_among [] w = ([], w)"
| "overdue_among (task # rest) w =
     (let (late, w1) = is_overdue task w;
          (res, w2) = overdue_among rest w1
      in (if late \<and> status task \<noteq> ''Completed'' then task # res else res, w2))"

definition get_overdue_tasks :: "TaskManager \<Rightarrow> world \<Rightarrow> Task list \<times> world" where
  "get_overdue_tasks self w = overdue_among (tasks self) w"

definition get_tasks_due_soon :: "int \<Rightarrow> TaskManager \<Rightarrow> world \<Rightarrow> Task list \<times> world" where
  "get_tasks_due_soon days self w =
     (let (n, w1) = now w;
          today = date n;
          due = today + days
      in (filter (\<lambda>task. case due_date task of
                           None \<Rightarrow> False
                         | Some d \<Rightarrow> status task \<noteq> ''Completed'' \<and> today \<le> date d \<and> date d \<le> due)
            (tasks self), w1))"

text \<open>
  The statistics without \<open>completion_rate\<close>, which is a floating-point number.
\<close>

record statistics =
  total_tasks :: nat
  completed_tasks :: nat
  pending_tasks :: nat
  overdue_tasks :: nat
  due_soon_tasks :: nat
  categories :: "(string \<times> nat) list"
  priorities :: "(string \<times> nat) list"

definition count_up :: "(string \<times> nat) list \<Rightarrow> string \<Rightarrow> (string \<times> nat) list" where
  \<comment> \<open>\<open>d[k] = d.get(k, 0) + 1\<close>\<close>
  "count_up d k = AList.update k ((case map_of d k of Some c \<Rightarrow> c | None \<Rightarrow> 0) + 1) d"

definition get_task_statistics :: "TaskManager \<Rightarrow> world \<Rightarrow> statistics \<times> world" where
  "get_task_statistics self w =
     (let total = length (tasks self);
          completed = length (get_tasks_by_status (Some ''Completed'') self);
          pending = length (get_tasks_by_status (Some ''Pending'') self);
          (late, w1) = get_overdue_tasks self w;
          (soon, w2) = get_tasks_due_soon 3 self w1
      in (\<lparr>total_tasks = total,
           completed_tasks = completed,
           pending_tasks = pending,
           overdue_tasks = length late,
           due_soon_tasks = length soon,
           categories = foldl count_up [] (map category (tasks self)),
           priorities = foldl count_up [(''High'', 0), (''Medium'', 0), (''Low'', 0)]
                          (map priority (tasks self))\<rparr>, w2))"

definition priority_order :: "string \<Rightarrow> nat" where
  \<comment> \<open>\<open>priority_order.get(p, 3)\<close>\<close>
  "priority_order p =
     (case map_of [(''High'', 0), (''Medium'', 1), (''Low'', 2)] p of Some k \<Rightarrow> k | None \<Rightarrow> 3)"

definition status_order :: "string \<Rightarrow> nat" where
  \<comment> \<open>\<open>status_order.get(s, 4)\<close>\<close>
  "status_order s =
     (case map_of [(''Pending'', 0), (''In Progress'', 1), (''Completed'', 2), (''Cancelled'', 3)] s of
        Some k \<Rightarrow> k | None \<Rightarrow> 4)"

text \<open>
  Python's \<open>sorted\<close> is a stable sort, as \<open>sort_key\<close> is; with \<open>reverse=True\<close> the
  elements with equal keys keep their order too.
\<close>

definition sort_tasks :: "Task list \<Rightarrow> string \<Rightarrow> Task list" where
  "sort_tasks ts sort_by =
     (if sort_by = ''due_date''
      then sort_key (\<lambda>x. case due_date x of Some d \<Rightarrow> d | None \<Rightarrow> datetime_max) ts
      else if sort_by = ''priority'' then sort_key (\<lambda>x. priority_order (priority x)) ts
      else if sort_by = ''name'' then sort_key (\<lambda>x. lower (name x)) ts
      else if sort_by = ''created_at'' then rev (sort_key created_at (rev ts))
      else if sort_by = ''status'' then sort_key (\<lambda>x. status_order (status x)) ts
      else ts)"

definition clear_completed_tasks ::
  "stdlib \<Rightarrow> TaskManager \<Rightarrow> world \<Rightarrow> ((bool \<times> string) \<times> TaskManager \<times> world) outcome" where
  "clear_completed_tasks L self w =
     (let completed_tasks = get_tasks_by_status (Some ''Completed'') self in
      if completed_tasks = [] then Ok ((True, ''No completed tasks to remove''), self, w)
      else
        (let self1 = self\<lparr>tasks := filter (\<lambda>task. status task \<noteq> ''Completed'') (tasks self)\<rparr>;
             (saved, w1) = save_tasks L self1 w
         in if saved
            then Ok ((True, ''Removed '' @ str_nat (length completed_tasks) @ '' completed tasks''),
                     self1, w1)
            else (case load_tasks L self1 w1 of
                    (Ok self2, w2) \<Rightarrow> Ok ((False, ''Failed to save changes''), self2, w2)
                  | (Raise e, w2) \<Rightarrow>
                      Ok ((False, ''Error clearing completed tasks: '' @ str_exn e), self1, w2)
                  | (Untyped, w2) \<Rightarrow> Untyped)))"

section \<open>Reading results, and a concrete session\<close>

definition returned :: "('r \<times> TaskManager \<times> world) outcome \<Rightarrow> 'r option" where
  \<comment> \<open>what the caller gets back\<close>
  "returned out = (case out of Ok (r, self, w) \<Rightarrow> Some r | Raise e \<Rightarrow> None | Untyped \<Rightarrow> None)"

definition tasks_after :: "('r \<times> TaskManager \<times> world) outcome \<Rightarrow> Task list option" where
  \<comment> \<open>\<open>self.tasks\<close> after the call\<close>
  "tasks_after out = (case out of Ok (r, self, w) \<Rightarrow> Some (tasks self) | Raise e \<Rightarrow> None | Untyped \<Rightarrow> None)"

definition world_after :: "('r \<times> TaskManager \<times> world) outcome \<Rightarrow> world option" where
  \<comment> \<open>the world after the call\<close>
  "world_after out = (case out of Ok (r, self, w) \<Rightarrow> Some w | Raise e \<Rightarrow> None | Untyped \<Rightarrow> None)"

text \<open>
  An excerpt of the standard library for the examples: the ISO strings of three
  instants, as Python prints and parses them, and the implicit attributes of an
  instance in CPython 3.11. Strings outside the table do not parse (as
  \<open>'next week'\<close> does not); the examples state nothing that depends on the
  placeholder printed for other instants.
\<close>

definition iso_table :: "(datetime \<times> string) list" where
  "iso_table =
     [(63839696400000000, ''2024-01-01T09:00:00''),
      (63839696401000000, ''2024-01-01T09:00:01''),
      (63840301200000000, ''2024-01-08T09:00:00'')]"

definition py :: stdlib where
  "py = \<lparr>isoformat = (\<lambda>d. case map_of iso_table d of Some s \<Rightarrow> s | None \<Rightarrow> ''?''),
          fromisoformat = (\<lambda>s. map_of (map (\<lambda>(d, s). (s, d)) iso_table) s),
          implicit_attrs =
            [''__class__'', ''__delattr__'', ''__dict__'', ''__dir__'', ''__doc__'', ''__eq__'',
             ''__format__'', ''__ge__'', ''__getattribute__'', ''__getstate__'', ''__gt__'',
             ''__hash__'', ''__init_subclass__'', ''__le__'', ''__lt__'', ''__module__'',
             ''__ne__'', ''__new__'', ''__reduce__'', ''__reduce_ex__'', ''__repr__'',
             ''__setattr__'', ''__sizeof__'', ''__subclasshook__'', ''__weakref__'']\<rparr>"

text \<open>
  A world whose clock starts at 2024-01-01T10:00:00 and advances one second per
  reading, whose disk accepts every write, and in which no tasks file exists yet; and
  the same world with a disk that refuses every write.
\<close>

definition world0 :: world where
  "world0 = \<lparr>clock = siterate (\<lambda>t. t + 1000000) 63839700000000000,
              uuid4 = sconst ''9f8e7d6c-1111-4222-8333-444455556666'',
              writes = sconst Written,
              files = (\<lambda>u. Missing)\<rparr>"

definition world_readonly :: world where
  "world_readonly = world0\<lparr>writes := sconst Refused\<rparr>"

definition milk :: Task where
  "milk = \<lparr>id_t = ''a1b2c3d4'', name = ''Buy milk'', priority = ''Low'',
            due_date = Some 63840301200000000, category = ''General'',
            status = ''In Progress'', description = [],
            created_at = 63839696400000000, updated_at = 63839696401000000\<rparr>"

definition alice :: TaskManager where
  "alice = \<lparr>username = ''alice'', tasks = [milk]\<rparr>"

definition rent :: Task where
  "rent = \<lparr>id_t = ''0badcafe'', name = ''Pay rent'', priority = ''High'',
            due_date = Some 63840301200000000, category = ''Finance'',
            status = ''Completed'', description = [],
            created_at = 63839696400000000, updated_at = 63839696401000000\<rparr>"

definition errands :: TaskManager where
  "errands = \<lparr>username = ''alice'', tasks = [milk, rent]\<rparr>"

definition fresh :: TaskManager where
  "fresh = \<lparr>username = ''alice'', tasks = []\<rparr>"

definition bread_added :: "(bool \<times> string) \<times> TaskManager \<times> world" where
  \<comment> \<open>a task added without a due date\<close>
  "bread_added = add_task py ''Buy bread'' ''Medium'' None ''General'' [] fresh world0"

section \<open>Properties\<close>

subsection \<open>Auxiliary facts\<close>

lemma get_task_by_id_bound: "get_task_by_id tid ts = Some i \<Longrightarrow> i < length ts"
  by (induction ts arbitrary: i) (auto split: if_splits)

lemma get_task_by_id_hit: "get_task_by_id tid ts = Some i \<Longrightarrow> id_t (ts ! i) = tid"
  by (induction ts arbitrary: i) (auto split: if_splits)

lemma setattr_id_t: "setattr t k v = Some t' \<Longrightarrow> k \<noteq> ''id'' \<Longrightarrow> id_t t' = id_t t"
  by (auto simp: setattr_def split: pyval.splits if_splits)

lemma set_attrs_id_t:
  "set_attrs L t kw = Some t' \<Longrightarrow> \<forall>v. (''id'', v) \<in> set kw \<longrightarrow> v = PNone \<Longrightarrow> id_t t' = id_t t"
proof (induction kw arbitrary: t)
  case Nil
  then show ?case by simp
next
  case (Cons e kw)
  obtain k v where e: "e = (k, v)" by (cases e)
  show ?case
  proof (cases "hasattr L k \<and> v \<noteq> PNone")
    case True
    with Cons.prems e have kid: "k \<noteq> ''id''" by auto
    from True Cons.prems e obtain t1 where s: "setattr t k v = Some t1" and r: "set_attrs L t1 kw = Some t'"
      by (auto split: option.splits)
    from Cons.IH[OF r] Cons.prems(2) have "id_t t' = id_t t1" by auto
    with setattr_id_t[OF s kid] show ?thesis by simp
  next
    case False
    with Cons.prems e have "set_attrs L t kw = Some t'" by auto
    from Cons.IH[OF this] Cons.prems(2) show ?thesis by auto
  qed
qed

lemma setattr_due:
  "setattr t k v = Some t' \<Longrightarrow> k \<noteq> ''due_date'' \<Longrightarrow> due_date t' = due_date t"
  by (auto simp: setattr_def split: pyval.splits if_splits)

lemma set_attrs_due:
  "set_attrs L t kw = Some t' \<Longrightarrow> \<forall>v. (''due_date'', v) \<in> set kw \<longrightarrow> v = PNone \<Longrightarrow> due_date t' = due_date t"
proof (induction kw arbitrary: t)
  case Nil
  then show ?case by simp
next
  case (Cons e kw)
  obtain k v where e: "e = (k, v)" by (cases e)
  show ?case
  proof (cases "hasattr L k \<and> v \<noteq> PNone")
    case True
    with Cons.prems e have kid: "k \<noteq> ''due_date''" by auto
    from True Cons.prems e obtain t1 where s: "setattr t k v = Some t1" and r: "set_attrs L t1 kw = Some t'"
      by (auto split: option.splits)
    from Cons.IH[OF r] Cons.prems(2) have "due_date t' = due_date t1" by auto
    with setattr_due[OF s kid] show ?thesis by simp
  next
    case False
    with Cons.prems e have "set_attrs L t kw = Some t'" by auto
    from Cons.IH[OF this] Cons.prems(2) show ?thesis by auto
  qed
qed

lemma alist_update_other:
  "(k', v') \<in> set (AList.update k v al) \<Longrightarrow> k' \<noteq> k \<Longrightarrow> (k', v') \<in> set al"
  by (induction al) (auto split: if_splits)

lemma validate_name_keeps:
  "validate_name kw = Inr kw' \<Longrightarrow> k \<noteq> ''name'' \<Longrightarrow> (k, v) \<in> set kw' \<Longrightarrow> (k, v) \<in> set kw"
  by (auto simp: validate_name_def Let_def split: option.splits if_splits pyval.splits
           dest: alist_update_other)

text \<open>What a call of \<open>update_task\<close> that returns can have done to the collection.\<close>

lemma update_task_Ok:
  assumes "update_task L tid kwargs self w = Ok (r, self', w')"
  shows "tasks self' = tasks self \<or>
         (\<exists>i kw1 t1 n. get_task_by_id tid (tasks self) = Some i \<and> validate_name kwargs = Inr kw1
            \<and> set_attrs L (tasks self ! i) kw1 = Some t1
            \<and> tasks self' = (tasks self)[i := t1\<lparr>updated_at := n\<rparr>])"
  using assms
  by (auto simp: update_task_def Let_def split: option.splits sum.splits prod.splits if_splits)

lemma tasks_after_Some:
  "tasks_after out = Some ts \<Longrightarrow> \<exists>r self w. out = Ok (r, self, w) \<and> tasks self = ts"
  by (cases out) (auto simp: tasks_after_def)

lemma returned_Some:
  "returned out = Some r \<Longrightarrow> \<exists>self w. out = Ok (r, self, w)"
  by (cases out) (auto simp: returned_def)

lemma update_task_ids:
  assumes "update_task L tid kwargs self w = Ok (r, self', w')"
    and "\<forall>v. (''id'', v) \<in> set kwargs \<longrightarrow> v = PNone"
  shows "map id_t (tasks self') = map id_t (tasks self)"
proof -
  from update_task_Ok[OF assms(1)] show ?thesis
  proof
    assume "tasks self' = tasks self" then show ?thesis by simp
  next
    assume "\<exists>i kw1 t1 n. get_task_by_id tid (tasks self) = Some i \<and> validate_name kwargs = Inr kw1
            \<and> set_attrs L (tasks self ! i) kw1 = Some t1
            \<and> tasks self' = (tasks self)[i := t1\<lparr>updated_at := n\<rparr>]"
    then obtain i kw1 t1 n where g: "get_task_by_id tid (tasks self) = Some i"
      and v: "validate_name kwargs = Inr kw1"
      and s: "set_attrs L (tasks self ! i) kw1 = Some t1"
      and t: "tasks self' = (tasks self)[i := t1\<lparr>updated_at := n\<rparr>]" by blast
    have "\<forall>v. (''id'', v) \<in> set kw1 \<longrightarrow> v = PNone"
      using validate_name_keeps[OF v] assms(2) by auto
    from set_attrs_id_t[OF s this] have "id_t t1 = id_t (tasks self ! i)" .
    moreover have "i < length (tasks self)" using g by (rule get_task_by_id_bound)
    ultimately have "(map id_t (tasks self))[i := id_t t1] = map id_t (tasks self)"
      by (simp add: list_update_same_conv)
    with t show ?thesis by (simp add: map_update)
  qed
qed

lemma update_task_due:
  assumes "update_task L tid kwargs self w = Ok (r, self', w')"
    and "\<forall>v. (''due_date'', v) \<in> set kwargs \<longrightarrow> v = PNone"
  shows "map due_date (tasks self') = map due_date (tasks self)"
proof -
  from update_task_Ok[OF assms(1)] show ?thesis
  proof
    assume "tasks self' = tasks self" then show ?thesis by simp
  next
    assume "\<exists>i kw1 t1 n. get_task_by_id tid (tasks self) = Some i \<and> validate_name kwargs = Inr kw1
            \<and> set_attrs L (tasks self ! i) kw1 = Some t1
            \<and> tasks self' = (tasks self)[i := t1\<lparr>updated_at := n\<rparr>]"
    then obtain i kw1 t1 n where g: "get_task_by_id tid (tasks self) = Some i"
      and v: "validate_name kwargs = Inr kw1"
      and s: "set_attrs L (tasks self ! i) kw1 = Some t1"
      and t: "tasks self' = (tasks self)[i := t1\<lparr>updated_at := n\<rparr>]" by blast
    have "\<forall>v. (''due_date'', v) \<in> set kw1 \<longrightarrow> v = PNone"
      using validate_name_keeps[OF v] assms(2) by auto
    from set_attrs_due[OF s this] have "due_date t1 = due_date (tasks self ! i)" .
    moreover have "i < length (tasks self)" using g by (rule get_task_by_id_bound)
    ultimately have "(map due_date (tasks self))[i := due_date t1] = map due_date (tasks self)"
      by (simp add: list_update_same_conv)
    with t show ?thesis by (simp add: map_update)
  qed
qed

lemma remove_at_mset: "i < length xs \<Longrightarrow> mset (remove_at i xs) + {#xs ! i#} = mset xs"
  unfolding remove_at_def
  by (metis add_mset_add_single id_take_nth_drop mset.simps(2) mset_append union_mset_add_mset_right)

lemma add_task_keeps:
  "add_task L n p d c ds self w = (r, self', w') \<Longrightarrow> take (length (tasks self)) (tasks self') = tasks self"
  unfolding add_task_def Let_def remove_at_def
  by (simp split: if_splits prod.splits) auto

lemma delete_task_keeps:
  assumes "delete_task L tid self w = (r, self', w')"
  shows "mset (tasks self') \<subseteq># mset (tasks self)"
proof (cases "get_task_by_id tid (tasks self)")
  case None
  with assms show ?thesis by (simp add: delete_task_def)
next
  case (Some i)
  then have "i < length (tasks self)" by (rule get_task_by_id_bound)
  from remove_at_mset[OF this]
  have m: "mset (remove_at i (tasks self)) + {#tasks self ! i#} = mset (tasks self)" .
  then have sub: "mset (remove_at i (tasks self)) \<subseteq># mset (tasks self)"
    by (metis mset_subset_eq_add_left)
  obtain saved w1 where sv: "save_tasks L (self\<lparr>tasks := remove_at i (tasks self)\<rparr>) w = (saved, w1)"
    by (cases "save_tasks L (self\<lparr>tasks := remove_at i (tasks self)\<rparr>) w")
  show ?thesis
  proof (cases saved)
    case True
    with assms Some sv have "tasks self' = remove_at i (tasks self)"
      by (auto simp: delete_task_def Let_def)
    with sub show ?thesis by simp
  next
    case False
    with assms Some sv have "tasks self' = remove_at i (tasks self) @ [tasks self ! i]"
      by (auto simp: delete_task_def Let_def)
    with m show ?thesis by simp
  qed
qed

lemma clear_completed_keeps:
  assumes "clear_completed_tasks L self w = Ok (r, self', w')" and "fst r"
  shows "tasks self' = filter (\<lambda>t. status t \<noteq> ''Completed'') (tasks self)"
proof (cases "filter (\<lambda>task. status task = ''Completed'') (tasks self) = []")
  case True
  then have "filter (\<lambda>t. status t \<noteq> ''Completed'') (tasks self) = tasks self"
    by (simp add: filter_empty_conv filter_id_conv)
  moreover from True assms(1) have "self' = self"
    by (simp add: clear_completed_tasks_def get_tasks_by_status_def)
  ultimately show ?thesis by simp
next
  case False
  let ?self1 = "self\<lparr>tasks := filter (\<lambda>task. status task \<noteq> ''Completed'') (tasks self)\<rparr>"
  obtain saved w1 where sv: "save_tasks L ?self1 w = (saved, w1)"
    by (cases "save_tasks L ?self1 w")
  show ?thesis
  proof (cases saved)
    case True
    with False sv assms(1) have "self' = ?self1"
      by (simp add: clear_completed_tasks_def get_tasks_by_status_def Let_def)
    then show ?thesis by simp
  next
    case nsaved: False
    with False sv assms(1) have "\<not> fst r"
      by (auto simp: clear_completed_tasks_def get_tasks_by_status_def Let_def
            split: prod.splits outcome.splits)
    with assms(2) show ?thesis by simp
  qed
qed

lemma first_repeat_None:
  "(first_repeat seen ks = None) = (distinct ks \<and> set ks \<inter> set seen = {})"
  by (induction ks arbitrary: seen) auto

lemma call_error_None:
  "(call_error kw = None)
     = (distinct (map fst kw) \<and> ''self'' \<notin> fst ` set kw \<and> ''task_id'' \<notin> fst ` set kw)"
proof -
  have bound: "(find (\<lambda>k. k = ''self'' \<or> k = ''task_id'') (map fst kw) = None)
                 = (''self'' \<notin> fst ` set kw \<and> ''task_id'' \<notin> fst ` set kw)"
    by (auto simp: find_None_iff image_iff)
  have twice: "(first_repeat [] (map fst kw) = None) = distinct (map fst kw)"
    by (simp add: first_repeat_None)
  show ?thesis
  proof (cases "first_repeat [] (map fst kw)")
    case None
    with twice have d: "distinct (map fst kw)" by simp
    show ?thesis
    proof (cases "find (\<lambda>k. k = ''self'' \<or> k = ''task_id'') (map fst kw)")
      case n: None
      with None d bound show ?thesis by (simp add: call_error_def)
    next
      case (Some a)
      then have "find (\<lambda>k. k = ''self'' \<or> k = ''task_id'') (map fst kw) \<noteq> None" by simp
      with bound have "\<not> (''self'' \<notin> fst ` set kw \<and> ''task_id'' \<notin> fst ` set kw)" by simp
      with None Some show ?thesis by (simp add: call_error_def)
    qed
  next
    case (Some k)
    with twice have "\<not> distinct (map fst kw)" by simp
    with Some show ?thesis by (simp add: call_error_def)
  qed
qed

lemma call_error_filter: "call_error kw = None \<Longrightarrow> call_error (filter P kw) = None"
  by (auto simp: call_error_None distinct_map_filter)

text \<open>The fields that the loop of \<open>update_task\<close> skips can be left out of the call.\<close>

lemma set_attrs_filter:
  "set_attrs L t (filter (\<lambda>(k, v). hasattr L k \<and> v \<noteq> PNone) kw) = set_attrs L t kw"
proof (induction kw arbitrary: t)
  case Nil
  show ?case by simp
next
  case (Cons e kw)
  obtain k v where e: "e = (k, v)" by (cases e)
  from e Cons.IH show ?case
    by (cases "hasattr L k"; cases "v = PNone") (simp_all split: option.splits)
qed

lemma map_of_filter_distinct:
  "distinct (map fst kw) \<Longrightarrow>
   map_of (filter P kw) k = (case map_of kw k of Some v \<Rightarrow> if P (k, v) then Some v else None | None \<Rightarrow> None)"
proof (induction kw)
  case Nil
  then show ?case by simp
next
  case (Cons e kw)
  obtain k' v' where e: "e = (k', v')" by (cases e)
  show ?case
  proof (cases "k' = k")
    case True
    with Cons.prems e have "k \<notin> fst ` set kw" by auto
    then have "map_of kw k = None" by (simp add: map_of_eq_None_iff)
    with Cons e True show ?thesis by simp
  next
    case False
    with Cons e show ?thesis by simp
  qed
qed

lemma filter_alist_update:
  "map_of kw k = Some v \<Longrightarrow> P (k, v) \<Longrightarrow> P (k, x) \<Longrightarrow>
   filter P (AList.update k x kw) = AList.update k x (filter P kw)"
  by (induction kw) (auto split: if_splits)

lemma hasattr_name: "hasattr L ''name''"
  by (simp add: hasattr_def attr_kind_def)

lemma validate_name_filter:
  assumes "distinct (map fst kw)"
  shows "validate_name (filter (\<lambda>(k, v). hasattr L k \<and> v \<noteq> PNone) kw)
           = (case validate_name kw of
                Inl res \<Rightarrow> Inl res
              | Inr kw1 \<Rightarrow> Inr (filter (\<lambda>(k, v). hasattr L k \<and> v \<noteq> PNone) kw1))"
proof (cases "map_of kw ''name''")
  case None
  with map_of_filter_distinct[OF assms, of "\<lambda>(k, v). hasattr L k \<and> v \<noteq> PNone" "''name''"]
  show ?thesis by (simp add: validate_name_def)
next
  case (Some v)
  note look = map_of_filter_distinct[OF assms, of "\<lambda>(k, v). hasattr L k \<and> v \<noteq> PNone" "''name''"]
  show ?thesis
  proof (cases v)
    case PNone
    with Some look show ?thesis by (simp add: validate_name_def)
  next
    case (PStr s)
    with Some look have f: "map_of (filter (\<lambda>(k, v). hasattr L k \<and> v \<noteq> PNone) kw) ''name'' = Some (PStr s)"
      by (simp add: hasattr_name)
    have u: "filter (\<lambda>(k, v). hasattr L k \<and> v \<noteq> PNone) (AList.update ''name'' (PStr (strip s)) kw)
               = AList.update ''name'' (PStr (strip s)) (filter (\<lambda>(k, v). hasattr L k \<and> v \<noteq> PNone) kw)"
      using filter_alist_update[of kw "''name''" "PStr s"
              "\<lambda>(k, v). hasattr L k \<and> v \<noteq> PNone" "PStr (strip s)"] Some PStr
      by (simp add: hasattr_name)
    from Some PStr f u show ?thesis by (simp add: validate_name_def Let_def)
  next
    case (PDatetime d)
    with Some look show ?thesis by (simp add: validate_name_def hasattr_name)
  qed
qed

lemma update_task_filter:
  assumes "call_error kwargs = None"
  shows "update_task L task_id (filter (\<lambda>(k, v). hasattr L k \<and> v \<noteq> PNone) kwargs) self w
           = update_task L task_id kwargs self w"
proof -
  from assms have d: "distinct (map fst kwargs)" by (simp add: call_error_None)
  show ?thesis
  proof (cases "validate_name kwargs")
    case (Inl res)
    with validate_name_filter[OF d, of L] assms call_error_filter[OF assms] show ?thesis
      by (simp add: update_task_def split: option.splits)
  next
    case (Inr kw1)
    with validate_name_filter[OF d, of L] assms call_error_filter[OF assms] show ?thesis
      by (simp add: update_task_def set_attrs_filter split: option.splits)
  qed
qed

lemma set_attrs_ignored:
  "\<forall>(k, v) \<in> set kw. \<not> hasattr L k \<or> v = PNone \<Longrightarrow> set_attrs L t kw = Some t"
  by (induction kw) auto

lemma validate_name_ignored:
  assumes "\<forall>(k, v) \<in> set kw. \<not> hasattr L k \<or> v = PNone"
  shows "validate_name kw = Inr kw"
proof (cases "map_of kw ''name''")
  case None
  then show ?thesis by (simp add: validate_name_def)
next
  case (Some v)
  then have "(''name'', v) \<in> set kw" by (rule map_of_SomeD)
  with assms have "\<not> hasattr L ''name'' \<or> v = PNone" by auto
  then have "v = PNone" by (simp add: hasattr_name)
  with Some show ?thesis by (simp add: validate_name_def)
qed

lemma serializable_to_dict: "serializable L (to_dict L t) = to_dict L t"
  by (simp add: serializable_def to_dict_def split: option.splits)

lemma priority_order_cases:
  "(priority_order p = 0) = (p = ''High'')"
  "(priority_order p \<le> 1) = (p = ''High'' \<or> p = ''Medium'')"
  "(priority_order p \<le> 2) = (p = ''High'' \<or> p = ''Medium'' \<or> p = ''Low'')"
  by (auto simp: priority_order_def)

text \<open>
  A stable sort keeps the order of the elements that agree on any function the key
  is determined by.
\<close>

lemma sort_key_stable_on:
  assumes "\<And>x y. g x = g y \<Longrightarrow> f x = f y"
  shows "filter (\<lambda>x. g x = p) (sort_key f xs) = filter (\<lambda>x. g x = p) xs"
proof (cases "\<exists>z. g z = p")
  case True
  then obtain z where z: "g z = p" by blast
  have narrow: "filter (\<lambda>x. g x = p) (filter (\<lambda>x. f x = f z) ys) = filter (\<lambda>x. g x = p) ys" for ys
  proof -
    have "filter (\<lambda>x. f x = f z \<and> g x = p) ys = filter (\<lambda>x. g x = p) ys"
    proof (rule filter_cong)
      show "ys = ys" by (rule refl)
    next
      fix x assume "x \<in> set ys"
      show "(f x = f z \<and> g x = p) = (g x = p)"
      proof
        assume "f x = f z \<and> g x = p" then show "g x = p" by (rule conjunct2)
      next
        assume gp: "g x = p"
        then have "g x = g z" by (simp only: z)
        then have "f x = f z" by (rule assms)
        with gp show "f x = f z \<and> g x = p" by (rule conjI[rotated])
      qed
    qed
    then show ?thesis by (simp only: filter_filter)
  qed
  have "filter (\<lambda>x. g x = p) (sort_key f xs)
          = filter (\<lambda>x. g x = p) (filter (\<lambda>x. f x = f z) (sort_key f xs))"
    by (simp only: narrow)
  also have "\<dots> = filter (\<lambda>x. g x = p) (filter (\<lambda>x. f x = f z) xs)"
    by (simp only: sort_key_stable)
  also have "\<dots> = filter (\<lambda>x. g x = p) xs"
    by (simp only: narrow)
  finally show ?thesis .
next
  case False
  then show ?thesis by simp
qed

text \<open>Every task that the program constructs has a due date.\<close>

lemma Task_init_due: "due_date (fst (Task_init n p dd c s ds w)) \<noteq> None"
  by (cases dd) (simp_all add: Task_init_def now_def new_uuid_def Let_def)

lemma from_dict_due: "fst (from_dict L data w) = Ok t \<Longrightarrow> due_date t \<noteq> None"
  by (auto simp: from_dict_def Task_init_def now_def new_uuid_def Let_def
           split: option.splits pyval.splits prod.splits)

subsection \<open>Task\<close>

text \<open>
  C8: \<open>is_overdue\<close> is true exactly when the task has a due date, its status is not
  Completed, and the due date is strictly before the reading of the clock; a Completed
  task is never overdue.
\<close>

theorem is_overdue_iff:
  "fst (is_overdue t w) =
     ((\<exists>d. due_date t = Some d \<and> d < fst (now w)) \<and> status t \<noteq> ''Completed'')
   \<and> fst (is_overdue (t\<lparr>status := ''Completed''\<rparr>) w) = False"
  by (simp add: is_overdue_def now_def split: option.splits)

text \<open>
  C6: a stored record without priority, category, status and description, whose due date
  is the malformed string \<open>'next week'\<close>, loads with the documented defaults, but its
  due date is not null: \<open>from_dict\<close> passes \<open>None\<close> to the constructor, which puts
  the reading of the clock plus seven days in its place (2024-01-08T10:00:04 here).
\<close>

theorem from_dict_malformed_due_date:
  "fst (from_dict py [(''name'', PStr ''Buy milk''), (''due_date'', PStr ''next week'')] world0)
     = Ok \<lparr>id_t = ''9f8e7d6c'', name = ''Buy milk'', priority = ''Medium'',
            due_date = Some 63840304804000000, category = ''General'', status = ''Pending'',
            description = [], created_at = 63839700000000000, updated_at = 63839700001000000\<rparr>"
  by (simp add: world0_def milk_def py_def iso_table_def from_dict_def Task_init_def now_def new_uuid_def dict_get_def
        timedelta_def)



text \<open>
  The hypothesis on the due date is needed: a record without a due date, which no
  operation of the program constructs, would come back due seven days after the load.
\<close>

lemma round_trip_needs_due_date:
  "fst (from_dict py (to_dict py (milk\<lparr>due_date := None\<rparr>)) world0)
     = Ok (milk\<lparr>due_date := Some 63840304804000000\<rparr>)"
  by (simp add: world0_def milk_def py_def iso_table_def from_dict_def to_dict_def Task_init_def now_def new_uuid_def
        dict_get_def timedelta_def)

subsection \<open>Statistics\<close>

text \<open>
  C1, as the code has it: the pending count of \<open>get_task_statistics\<close> is the number
  of tasks whose status is literally Pending; the completed count is the number of
  Completed tasks and the total is the size of the collection.
\<close>

theorem pending_counts_literal_status:
  "pending_tasks (fst (get_task_statistics self w))
     = length (filter (\<lambda>task. status task = ''Pending'') (tasks self))
   \<and> completed_tasks (fst (get_task_statistics self w))
     = length (filter (\<lambda>task. status task = ''Completed'') (tasks self))
   \<and> total_tasks (fst (get_task_statistics self w)) = length (tasks self)"
  by (simp add: get_task_statistics_def get_tasks_by_status_def split: prod.splits)

text \<open>
  C1, as the specification states it, fails: for a collection of one task In Progress the pending
  count is 0, not total minus completed (which is 1).
\<close>

theorem pending_is_not_total_minus_completed:
  "pending_tasks (fst (get_task_statistics alice world0))
     \<noteq> total_tasks (fst (get_task_statistics alice world0))
       - completed_tasks (fst (get_task_statistics alice world0))"
  by (simp add: get_task_statistics_def get_tasks_by_status_def alice_def milk_def
        split: prod.splits)

subsection \<open>update\_task on concrete calls\<close>

text \<open>
  C2: when the disk refuses the write, \<open>update_task\<close> reports failure and keeps the
  change in memory: the status of the task is Completed afterwards and its
  \<open>updated_at\<close> is the reading of the clock.
\<close>

theorem update_task_failed_save_keeps_changes:
  "returned (update_task py ''a1b2c3d4'' [(''status'', PStr ''Completed'')] alice world_readonly)
     = Some (False, ''Failed to save changes'')
   \<and> tasks_after (update_task py ''a1b2c3d4'' [(''status'', PStr ''Completed'')] alice world_readonly)
     = Some [milk\<lparr>status := ''Completed'', updated_at := 63839700000000000\<rparr>]
   \<and> tasks alice = [milk]"
  by (simp add: world0_def world_readonly_def milk_def alice_def py_def iso_table_def
        update_task_def call_error_def validate_name_def save_tasks_def save_user_tasks_def
        now_def hasattr_def attr_kind_def setattr_def returned_def tasks_after_def)

text \<open>
  C3: \<open>update_task\<close> with the empty string as name succeeds; the name of the task is
  empty afterwards and \<open>updated_at\<close> is refreshed.
\<close>

theorem update_task_accepts_empty_name:
  "returned (update_task py ''a1b2c3d4'' [(''name'', PStr [])] alice world0)
     = Some (True, ''Task updated successfully'')
   \<and> tasks_after (update_task py ''a1b2c3d4'' [(''name'', PStr [])] alice world0)
     = Some [milk\<lparr>name := [], updated_at := 63839700000000000\<rparr>]"
  by (simp add: world0_def world_readonly_def milk_def alice_def py_def iso_table_def
        update_task_def call_error_def validate_name_def save_tasks_def save_user_tasks_def
        now_def hasattr_def attr_kind_def setattr_def returned_def tasks_after_def)

text \<open>
  C4, as the specification states it, fails: an update that supplies \<open>id\<close> overwrites the id of
  the task.
\<close>

theorem update_task_overwrites_id:
  "returned (update_task py ''a1b2c3d4'' [(''id'', PStr ''deadbeef'')] alice world0)
     = Some (True, ''Task updated successfully'')
   \<and> map_option (map id_t)
       (tasks_after (update_task py ''a1b2c3d4'' [(''id'', PStr ''deadbeef'')] alice world0))
     = Some [''deadbeef'']
   \<and> map id_t (tasks alice) = [''a1b2c3d4'']"
  by (simp add: world0_def world_readonly_def milk_def alice_def py_def iso_table_def
        update_task_def call_error_def validate_name_def save_tasks_def save_user_tasks_def
        now_def hasattr_def attr_kind_def setattr_def returned_def tasks_after_def)

subsection \<open>Sorting\<close>

text \<open>
  C9: sorting by priority permutes the list, orders it by the rank of the priorities
  (High, then Medium, then Low, then everything else), keeps the original order among
  tasks of equal priority, and so never places a task behind one of a later priority;
  priorities Low, High, Medium come out as High, Medium, Low.
\<close>

theorem sort_tasks_by_priority:
  "mset (sort_tasks ts ''priority'') = mset ts
   \<and> sorted (map (\<lambda>x. priority_order (priority x)) (sort_tasks ts ''priority''))
   \<and> (\<forall>p. filter (\<lambda>x. priority x = p) (sort_tasks ts ''priority'')
            = filter (\<lambda>x. priority x = p) ts)
   \<and> (\<forall>i j. i < j \<and> j < length ts \<longrightarrow>
          (priority (sort_tasks ts ''priority'' ! j) = ''High''
             \<longrightarrow> priority (sort_tasks ts ''priority'' ! i) = ''High'')
        \<and> (priority (sort_tasks ts ''priority'' ! j) = ''Medium''
             \<longrightarrow> priority (sort_tasks ts ''priority'' ! i) = ''High''
               \<or> priority (sort_tasks ts ''priority'' ! i) = ''Medium'')
        \<and> (priority (sort_tasks ts ''priority'' ! j) = ''Low''
             \<longrightarrow> priority (sort_tasks ts ''priority'' ! i) = ''High''
               \<or> priority (sort_tasks ts ''priority'' ! i) = ''Medium''
               \<or> priority (sort_tasks ts ''priority'' ! i) = ''Low''))
   \<and> sort_tasks [a\<lparr>priority := ''Low''\<rparr>, b\<lparr>priority := ''High''\<rparr>, c\<lparr>priority := ''Medium''\<rparr>] ''priority''
       = [b\<lparr>priority := ''High''\<rparr>, c\<lparr>priority := ''Medium''\<rparr>, a\<lparr>priority := ''Low''\<rparr>]"
proof -
  let ?f = "\<lambda>x. priority_order (priority x)"
  let ?r = "sort_tasks ts ''priority''"
  have r: "?r = sort_key ?f ts" by (simp add: sort_tasks_def)
  have perm: "mset ?r = mset ts" by (simp add: r)
  have srt: "sorted (map ?f ?r)" by (simp add: r)
  have stable: "\<forall>p. filter (\<lambda>x. priority x = p) ?r = filter (\<lambda>x. priority x = p) ts"
    unfolding r by (intro allI sort_key_stable_on) simp
  have order: "?f (?r ! i) \<le> ?f (?r ! j)" if "i < j" "j < length ts" for i j
  proof -
    from that have "j < length (map ?f ?r)" by (simp add: r)
    with srt that(1) have "map ?f ?r ! i \<le> map ?f ?r ! j"
      by (simp add: sorted_iff_nth_mono)
    with that show ?thesis by (simp add: r)
  qed
  have pos: "\<forall>i j. i < j \<and> j < length ts \<longrightarrow>
          (priority (?r ! j) = ''High'' \<longrightarrow> priority (?r ! i) = ''High'')
        \<and> (priority (?r ! j) = ''Medium''
             \<longrightarrow> priority (?r ! i) = ''High'' \<or> priority (?r ! i) = ''Medium'')
        \<and> (priority (?r ! j) = ''Low''
             \<longrightarrow> priority (?r ! i) = ''High'' \<or> priority (?r ! i) = ''Medium''
               \<or> priority (?r ! i) = ''Low'')"
  proof (intro allI impI conjI)
    fix i j assume ij: "i < j \<and> j < length ts" and "priority (?r ! j) = ''High''"
    then have "?f (?r ! j) = 0" by (simp add: priority_order_def)
    with order[of i j] ij have "?f (?r ! i) = 0" by simp
    then show "priority (?r ! i) = ''High''" by (simp only: priority_order_cases)
  next
    fix i j assume ij: "i < j \<and> j < length ts" and "priority (?r ! j) = ''Medium''"
    then have "?f (?r ! j) = 1" by (simp add: priority_order_def)
    with order[of i j] ij have "?f (?r ! i) \<le> 1" by simp
    then show "priority (?r ! i) = ''High'' \<or> priority (?r ! i) = ''Medium''"
      by (simp only: priority_order_cases)
  next
    fix i j assume ij: "i < j \<and> j < length ts" and "priority (?r ! j) = ''Low''"
    then have "?f (?r ! j) = 2" by (simp add: priority_order_def)
    with order[of i j] ij have "?f (?r ! i) \<le> 2" by simp
    then show "priority (?r ! i) = ''High'' \<or> priority (?r ! i) = ''Medium''
               \<or> priority (?r ! i) = ''Low''"
      by (simp only: priority_order_cases)
  qed
  have ex: "sort_tasks [a\<lparr>priority := ''Low''\<rparr>, b\<lparr>priority := ''High''\<rparr>, c\<lparr>priority := ''Medium''\<rparr>] ''priority''
       = [b\<lparr>priority := ''High''\<rparr>, c\<lparr>priority := ''Medium''\<rparr>, a\<lparr>priority := ''Low''\<rparr>]"
    by (simp add: sort_tasks_def priority_order_def)
  from perm srt stable pos ex show ?thesis by blast
qed

theorem sort_tasks_by_priority_witness:
  "(0::nat) < 1 \<and> 1 < length [milk, rent, rent\<lparr>priority := ''Medium''\<rparr>]
   \<and> priority (sort_tasks [milk, rent, rent\<lparr>priority := ''Medium''\<rparr>] ''priority'' ! 1) = ''Medium''
   \<and> (priority (sort_tasks [milk, rent, rent\<lparr>priority := ''Medium''\<rparr>] ''priority'' ! 0) = ''High''
      \<or> priority (sort_tasks [milk, rent, rent\<lparr>priority := ''Medium''\<rparr>] ''priority'' ! 0) = ''Medium'')
   \<and> sort_tasks [milk, rent, rent\<lparr>priority := ''Medium''\<rparr>] ''priority''
       = [rent, rent\<lparr>priority := ''Medium''\<rparr>, milk]"
proof -
  let ?ts = "[milk, rent, rent\<lparr>priority := ''Medium''\<rparr>]"
  have low: "milk = milk\<lparr>priority := ''Low''\<rparr>" and high: "rent = rent\<lparr>priority := ''High''\<rparr>"
    by (simp_all add: milk_def rent_def)
  from sort_tasks_by_priority[of "[milk\<lparr>priority := ''Low''\<rparr>, rent\<lparr>priority := ''High''\<rparr>, rent\<lparr>priority := ''Medium''\<rparr>]" milk rent rent]
  have sorted3: "sort_tasks ?ts ''priority'' = [rent, rent\<lparr>priority := ''Medium''\<rparr>, milk]"
    and pos: "\<forall>i j. i < j \<and> j < length ?ts \<longrightarrow>
        (priority (sort_tasks ?ts ''priority'' ! j) = ''Medium''
             \<longrightarrow> priority (sort_tasks ?ts ''priority'' ! i) = ''High''
               \<or> priority (sort_tasks ?ts ''priority'' ! i) = ''Medium'')"
    unfolding low[symmetric] high[symmetric] by blast+
  have med: "priority (sort_tasks ?ts ''priority'' ! 1) = ''Medium''"
    by (simp add: sorted3)
  have "(0::nat) < 1 \<and> 1 < length ?ts" by simp
  with pos med have "priority (sort_tasks ?ts ''priority'' ! 0) = ''High''
      \<or> priority (sort_tasks ?ts ''priority'' ! 0) = ''Medium''"
    by blast
  with med sorted3 show ?thesis by simp
qed

subsection \<open>Identity and due date of a task under the manager's operations\<close>

text \<open>
  C4, as the code has it: \<open>update_task\<close> leaves the id of every task as it is unless
  the update supplies a value other than null for \<open>id\<close>; \<open>add_task\<close> leaves the
  existing tasks as they are; after \<open>delete_task\<close> every task of the collection is
  an unchanged task of the collection before; and a successful
  \<open>clear_completed_tasks\<close> keeps exactly the tasks that are not Completed, unchanged.
\<close>

theorem id_changes_only_by_update_of_id:
  "((\<forall>v. (''id'', v) \<in> set kwargs \<longrightarrow> v = PNone)
      \<longrightarrow> tasks_after (update_task L task_id kwargs self w) = Some ts
      \<longrightarrow> map id_t ts = map id_t (tasks self))
   \<and> take (length (tasks self)) (tasks (fst (snd (add_task L n p d c ds self w)))) = tasks self
   \<and> mset (tasks (fst (snd (delete_task L task_id self w)))) \<subseteq># mset (tasks self)
   \<and> (returned (clear_completed_tasks L self w) = Some (True, msg)
      \<longrightarrow> tasks_after (clear_completed_tasks L self w)
            = Some (filter (\<lambda>t. status t \<noteq> ''Completed'') (tasks self)))"
proof (intro conjI impI)
  assume "\<forall>v. (''id'', v) \<in> set kwargs \<longrightarrow> v = PNone"
    and "tasks_after (update_task L task_id kwargs self w) = Some ts"
  then show "map id_t ts = map id_t (tasks self)"
    by (auto dest!: tasks_after_Some dest: update_task_ids)
next
  show "take (length (tasks self)) (tasks (fst (snd (add_task L n p d c ds self w)))) = tasks self"
    by (rule add_task_keeps[of L n p d c ds self w "fst (add_task L n p d c ds self w)" _
          "snd (snd (add_task L n p d c ds self w))"]) simp
next
  show "mset (tasks (fst (snd (delete_task L task_id self w)))) \<subseteq># mset (tasks self)"
    by (rule delete_task_keeps[of L task_id self w "fst (delete_task L task_id self w)" _
          "snd (snd (delete_task L task_id self w))"]) simp
next
  assume "returned (clear_completed_tasks L self w) = Some (True, msg)"
  then obtain self' w' where "clear_completed_tasks L self w = Ok ((True, msg), self', w')"
    by (auto dest: returned_Some)
  then show "tasks_after (clear_completed_tasks L self w)
            = Some (filter (\<lambda>t. status t \<noteq> ''Completed'') (tasks self))"
    by (auto simp: tasks_after_def dest: clear_completed_keeps)
qed

theorem id_changes_only_by_update_of_id_witness:
  "tasks_after (update_task py ''a1b2c3d4'' [(''status'', PStr ''Completed''), (''id'', PNone)] errands world0)
     = Some [milk\<lparr>status := ''Completed'', updated_at := 63839700000000000\<rparr>, rent]
   \<and> map id_t [milk\<lparr>status := ''Completed'', updated_at := 63839700000000000\<rparr>, rent]
       = map id_t (tasks errands)
   \<and> returned (clear_completed_tasks py errands world0) = Some (True, ''Removed 1 completed tasks'')
   \<and> tasks_after (clear_completed_tasks py errands world0) = Some [milk]"
proof -
  have upd: "tasks_after (update_task py ''a1b2c3d4'' [(''status'', PStr ''Completed''), (''id'', PNone)] errands world0)
     = Some [milk\<lparr>status := ''Completed'', updated_at := 63839700000000000\<rparr>, rent]"
    by (simp add: errands_def milk_def rent_def world0_def py_def update_task_def call_error_def
          validate_name_def
          save_tasks_def save_user_tasks_def now_def hasattr_def attr_kind_def setattr_def
          tasks_after_def)
  have free: "\<forall>v. (''id'', v) \<in> set [(''status'', PStr ''Completed''), (''id'', PNone)] \<longrightarrow> v = PNone"
    by simp
  have one: "char_of (49::nat) = CHR ''1''" by code_simp
  have clr: "returned (clear_completed_tasks py errands world0) = Some (True, ''Removed 1 completed tasks'')"
    by (simp add: one errands_def world0_def milk_def rent_def clear_completed_tasks_def
          get_tasks_by_status_def save_tasks_def save_user_tasks_def returned_def str_nat.simps)
  have flt: "filter (\<lambda>t. status t \<noteq> ''Completed'') (tasks errands) = [milk]"
    by (simp add: errands_def milk_def rent_def)
  note inst = id_changes_only_by_update_of_id[of "[(''status'', PStr ''Completed''), (''id'', PNone)]"
      py "''a1b2c3d4''" errands world0
      "[milk\<lparr>status := ''Completed'', updated_at := 63839700000000000\<rparr>, rent]"
      _ _ _ _ _ "''Removed 1 completed tasks''"]
  from inst free upd have ids: "map id_t [milk\<lparr>status := ''Completed'', updated_at := 63839700000000000\<rparr>, rent]
       = map id_t (tasks errands)" by blast
  from inst clr have "tasks_after (clear_completed_tasks py errands world0)
      = Some (filter (\<lambda>t. status t \<noteq> ''Completed'') (tasks errands))" by blast
  with flt upd ids clr show ?thesis by simp
qed

text \<open>
  C5, as the code has it: a task constructed without a due date is due seven days
  after the third reading of the clock that the constructor takes (\<open>created_at\<close> is the
  first reading), also when it is created by \<open>add_task\<close>; and a null supplied for
  \<open>due_date\<close> to \<open>update_task\<close> is ignored: whatever else the call supplies, the due
  date of every task keeps its value.
\<close>

theorem default_due_date_and_null_update:
  "due_date (fst (Task_init n p None c s d w)) = Some (shd (stl (stl (clock w))) + 7 * 86400000000)
   \<and> created_at (fst (Task_init n p None c s d w)) = shd (clock w)
   \<and> (fst (fst (add_task L n p None c d self w))
      \<longrightarrow> due_date (last (tasks (fst (snd (add_task L n p None c d self w)))))
            = Some (shd (stl (stl (clock w))) + 7 * 86400000000))
   \<and> ((\<forall>v. (''due_date'', v) \<in> set kwargs \<longrightarrow> v = PNone)
      \<longrightarrow> tasks_after (update_task L task_id kwargs self w) = Some ts
      \<longrightarrow> map due_date ts = map due_date (tasks self))"
proof (intro conjI impI)
  show "due_date (fst (Task_init n p None c s d w)) = Some (shd (stl (stl (clock w))) + 7 * 86400000000)"
    by (simp add: Task_init_def now_def new_uuid_def timedelta_def)
next
  show "created_at (fst (Task_init n p None c s d w)) = shd (clock w)"
    by (simp add: Task_init_def now_def new_uuid_def)
next
  assume "fst (fst (add_task L n p None c d self w))"
  then show "due_date (last (tasks (fst (snd (add_task L n p None c d self w)))))
            = Some (shd (stl (stl (clock w))) + 7 * 86400000000)"
    by (simp add: add_task_def Task_init_def now_def new_uuid_def timedelta_def Let_def
          split: if_splits prod.splits)
next
  assume "\<forall>v. (''due_date'', v) \<in> set kwargs \<longrightarrow> v = PNone"
    and "tasks_after (update_task L task_id kwargs self w) = Some ts"
  then show "map due_date ts = map due_date (tasks self)"
    by (auto dest!: tasks_after_Some dest: update_task_due)
qed

theorem default_due_date_and_null_update_witness:
  "fst (fst (add_task py ''Buy bread'' ''Medium'' None ''General'' [] alice world0))
   \<and> due_date (last (tasks (fst (snd (add_task py ''Buy bread'' ''Medium'' None ''General'' [] alice world0)))))
       = Some 63840304802000000
   \<and> tasks_after (update_task py ''a1b2c3d4'' [(''due_date'', PNone), (''status'', PStr ''Completed'')] alice world0)
       = Some [milk\<lparr>status := ''Completed'', updated_at := 63839700000000000\<rparr>]
   \<and> map due_date [milk\<lparr>status := ''Completed'', updated_at := 63839700000000000\<rparr>]
       = map due_date (tasks alice)"
proof -
  have added: "fst (fst (add_task py ''Buy bread'' ''Medium'' None ''General'' [] alice world0))"
    by (simp add: add_task_def Task_init_def now_def new_uuid_def save_tasks_def
          save_user_tasks_def strip_def isspace_def alice_def world0_def)
  have upd: "tasks_after (update_task py ''a1b2c3d4'' [(''due_date'', PNone), (''status'', PStr ''Completed'')] alice world0)
       = Some [milk\<lparr>status := ''Completed'', updated_at := 63839700000000000\<rparr>]"
    by (simp add: alice_def milk_def world0_def py_def update_task_def call_error_def
          validate_name_def save_tasks_def save_user_tasks_def now_def hasattr_def attr_kind_def
          setattr_def tasks_after_def)
  have null: "\<forall>v. (''due_date'', v) \<in> set [(''due_date'', PNone), (''status'', PStr ''Completed'')] \<longrightarrow> v = PNone"
    by simp
  note inst = default_due_date_and_null_update[of "''Buy bread''" "''Medium''" "''General''" _ "[]"
      world0 py alice "[(''due_date'', PNone), (''status'', PStr ''Completed'')]" "''a1b2c3d4''"
      "[milk\<lparr>status := ''Completed'', updated_at := 63839700000000000\<rparr>]"]
  from inst added
  have "due_date (last (tasks (fst (snd (add_task py ''Buy bread'' ''Medium'' None ''General'' [] alice world0)))))
       = Some (shd (stl (stl (clock world0))) + 7 * 86400000000)" by blast
  then have due: "due_date (last (tasks (fst (snd (add_task py ''Buy bread'' ''Medium'' None ''General'' [] alice world0)))))
       = Some 63840304802000000" by (simp add: world0_def)
  from inst null upd
  have "map due_date [milk\<lparr>status := ''Completed'', updated_at := 63839700000000000\<rparr>]
       = map due_date (tasks alice)" by blast
  with added due upd show ?thesis by simp
qed

text \<open>
  C5, as the specification states it, fails: a task added without a due date is due seven days
  after a reading of the clock (two seconds after \<open>created_at\<close> in this world), and
  the update that supplies null for \<open>due_date\<close> succeeds and leaves that due date in
  place.
\<close>

theorem update_task_does_not_clear_due_date:
  "fst (fst bread_added)
   \<and> map created_at (tasks (fst (snd bread_added))) = [63839700000000000]
   \<and> map due_date (tasks (fst (snd bread_added))) = [Some 63840304802000000]
   \<and> returned (update_task py ''9f8e7d6c'' [(''due_date'', PNone)]
                 (fst (snd bread_added)) (snd (snd bread_added)))
       = Some (True, ''Task updated successfully'')
   \<and> map_option (map due_date)
        (tasks_after (update_task py ''9f8e7d6c'' [(''due_date'', PNone)]
                        (fst (snd bread_added)) (snd (snd bread_added))))
       = Some [Some 63840304802000000]"
  by (simp add: py_def bread_added_def fresh_def world0_def add_task_def Task_init_def new_uuid_def
        timedelta_def strip_def isspace_def update_task_def call_error_def validate_name_def save_tasks_def
        save_user_tasks_def now_def hasattr_def attr_kind_def setattr_def returned_def
        tasks_after_def)

subsection \<open>Fields that update\_task ignores\<close>

text \<open>
  C10, as the code has it. For a call that Python accepts (no keyword supplied twice,
  none named \<open>self\<close> or \<open>task_id\<close>), \<open>update_task\<close> ignores every supplied field
  whose name is not an attribute of the task and every supplied field whose value is
  null: the call does what the call without those fields does. When only such fields
  are supplied and the task exists, the call reports success exactly when the write
  succeeds and ``Failed to save changes'' otherwise; when the write succeeds, the
  collection is the old one with the \<open>updated_at\<close> of that task set to the reading of
  the clock and nothing else changed, and the tasks file of the user holds the
  serialized collection.
\<close>

theorem update_task_ignores:
  assumes "distinct (map fst kwargs)"
    and "''self'' \<notin> fst ` set kwargs" and "''task_id'' \<notin> fst ` set kwargs"
  shows "update_task L task_id kwargs self w
           = update_task L task_id (filter (\<lambda>(k, v). hasattr L k \<and> v \<noteq> PNone) kwargs) self w
   \<and> ((\<forall>(k, v) \<in> set kwargs. \<not> hasattr L k \<or> v = PNone) \<longrightarrow>
       get_task_by_id task_id (tasks self) = Some i \<longrightarrow>
         returned (update_task L task_id kwargs self w)
           = Some (if shd (writes w) = Written then (True, ''Task updated successfully'')
                   else (False, ''Failed to save changes''))
       \<and> (shd (writes w) = Written \<longrightarrow>
           update_task L task_id kwargs self w =
             Ok ((True, ''Task updated successfully''),
                 self\<lparr>tasks := (tasks self)[i := (tasks self ! i)\<lparr>updated_at := shd (clock w)\<rparr>]\<rparr>,
                 w\<lparr>clock := stl (clock w), writes := stl (writes w),
                   files := (files w)(username self :=
                      Json (map (to_dict L) ((tasks self)[i := (tasks self ! i)\<lparr>updated_at := shd (clock w)\<rparr>])))\<rparr>)))"
proof -
  from assms have legal: "call_error kwargs = None"
    by (simp add: call_error_None)
  have same: "update_task L task_id kwargs self w
           = update_task L task_id (filter (\<lambda>(k, v). hasattr L k \<and> v \<noteq> PNone) kwargs) self w"
    by (rule update_task_filter[OF legal, symmetric])
  have only: "returned (update_task L task_id kwargs self w)
           = Some (if shd (writes w) = Written then (True, ''Task updated successfully'')
                   else (False, ''Failed to save changes''))
       \<and> (shd (writes w) = Written \<longrightarrow>
           update_task L task_id kwargs self w =
             Ok ((True, ''Task updated successfully''),
                 self\<lparr>tasks := (tasks self)[i := (tasks self ! i)\<lparr>updated_at := shd (clock w)\<rparr>]\<rparr>,
                 w\<lparr>clock := stl (clock w), writes := stl (writes w),
                   files := (files w)(username self :=
                      Json (map (to_dict L) ((tasks self)[i := (tasks self ! i)\<lparr>updated_at := shd (clock w)\<rparr>])))\<rparr>))"
    if ign: "\<forall>(k, v) \<in> set kwargs. \<not> hasattr L k \<or> v = PNone"
      and found: "get_task_by_id task_id (tasks self) = Some i"
  proof (cases "shd (writes w)")
    case Written
    with legal found validate_name_ignored[OF ign] set_attrs_ignored[OF ign] show ?thesis
      by (simp add: update_task_def now_def save_tasks_def save_user_tasks_def
            serializable_to_dict returned_def cong: map_cong)
  next
    case Refused
    with legal found validate_name_ignored[OF ign] set_attrs_ignored[OF ign] show ?thesis
      by (simp add: update_task_def now_def save_tasks_def save_user_tasks_def returned_def)
  next
    case Torn
    with legal found validate_name_ignored[OF ign] set_attrs_ignored[OF ign] show ?thesis
      by (simp add: update_task_def now_def save_tasks_def save_user_tasks_def returned_def)
  qed
  from same only show ?thesis by blast
qed

theorem update_task_ignores_witness:
  "update_task py ''a1b2c3d4''
       [(''colour'', PStr ''red''), (''status'', PStr ''Completed''), (''priority'', PNone)] alice world0
     = update_task py ''a1b2c3d4'' [(''status'', PStr ''Completed'')] alice world0
   \<and> get_task_by_id ''a1b2c3d4'' (tasks alice) = Some 0
   \<and> returned (update_task py ''a1b2c3d4'' [(''colour'', PStr ''red''), (''priority'', PNone)] alice world0)
     = Some (True, ''Task updated successfully'')
   \<and> tasks_after (update_task py ''a1b2c3d4'' [(''colour'', PStr ''red''), (''priority'', PNone)] alice world0)
     = Some [milk\<lparr>updated_at := 63839700000000000\<rparr>]"
proof -
  have flt: "filter (\<lambda>(k, v). hasattr py k \<and> v \<noteq> PNone)
               [(''colour'', PStr ''red''), (''status'', PStr ''Completed''), (''priority'', PNone)]
             = [(''status'', PStr ''Completed'')]"
    by (simp add: hasattr_def attr_kind_def py_def)
  have "distinct (map fst [(''colour'', PStr ''red''), (''status'', PStr ''Completed''), (''priority'', PNone)])"
    and "''self'' \<notin> fst ` set [(''colour'', PStr ''red''), (''status'', PStr ''Completed''), (''priority'', PNone)]"
    and "''task_id'' \<notin> fst ` set [(''colour'', PStr ''red''), (''status'', PStr ''Completed''), (''priority'', PNone)]"
    by simp_all
  from update_task_ignores[OF this, of py "''a1b2c3d4''" alice world0]
  have mixed: "update_task py ''a1b2c3d4''
       [(''colour'', PStr ''red''), (''status'', PStr ''Completed''), (''priority'', PNone)] alice world0
     = update_task py ''a1b2c3d4'' [(''status'', PStr ''Completed'')] alice world0"
    by (simp only: flt)
  have found: "get_task_by_id ''a1b2c3d4'' (tasks alice) = Some 0"
    by (simp add: alice_def milk_def)
  have ignorable: "\<forall>(k, v) \<in> set [(''colour'', PStr ''red''), (''priority'', PNone)]. \<not> hasattr py k \<or> v = PNone"
    by (simp add: hasattr_def attr_kind_def py_def)
  have disk: "shd (writes world0) = Written"
    by (simp add: world0_def)
  have "distinct (map fst [(''colour'', PStr ''red''), (''priority'', PNone)])"
    and "''self'' \<notin> fst ` set [(''colour'', PStr ''red''), (''priority'', PNone)]"
    and "''task_id'' \<notin> fst ` set [(''colour'', PStr ''red''), (''priority'', PNone)]"
    by simp_all
  from update_task_ignores[OF this, of py "''a1b2c3d4''" alice world0 0]
  have "(\<forall>(k, v) \<in> set [(''colour'', PStr ''red''), (''priority'', PNone)]. \<not> hasattr py k \<or> v = PNone) \<longrightarrow>
       get_task_by_id ''a1b2c3d4'' (tasks alice) = Some 0 \<longrightarrow>
         returned (update_task py ''a1b2c3d4'' [(''colour'', PStr ''red''), (''priority'', PNone)] alice world0)
           = Some (if shd (writes world0) = Written then (True, ''Task updated successfully'')
                   else (False, ''Failed to save changes''))
       \<and> (shd (writes world0) = Written \<longrightarrow>
           update_task py ''a1b2c3d4'' [(''colour'', PStr ''red''), (''priority'', PNone)] alice world0 =
             Ok ((True, ''Task updated successfully''),
                 alice\<lparr>tasks := (tasks alice)[0 := (tasks alice ! 0)\<lparr>updated_at := shd (clock world0)\<rparr>]\<rparr>,
                 world0\<lparr>clock := stl (clock world0), writes := stl (writes world0),
                   files := (files world0)(username alice :=
                      Json (map (to_dict py) ((tasks alice)[0 := (tasks alice ! 0)\<lparr>updated_at := shd (clock world0)\<rparr>])))\<rparr>))"
    by (rule conjunct2)
  with ignorable found
  have r1: "returned (update_task py ''a1b2c3d4'' [(''colour'', PStr ''red''), (''priority'', PNone)] alice world0)
           = Some (if shd (writes world0) = Written then (True, ''Task updated successfully'')
                   else (False, ''Failed to save changes''))"
    and r2: "shd (writes world0) = Written \<longrightarrow>
           update_task py ''a1b2c3d4'' [(''colour'', PStr ''red''), (''priority'', PNone)] alice world0 =
             Ok ((True, ''Task updated successfully''),
                 alice\<lparr>tasks := (tasks alice)[0 := (tasks alice ! 0)\<lparr>updated_at := shd (clock world0)\<rparr>]\<rparr>,
                 world0\<lparr>clock := stl (clock world0), writes := stl (writes world0),
                   files := (files world0)(username alice :=
                      Json (map (to_dict py) ((tasks alice)[0 := (tasks alice ! 0)\<lparr>updated_at := shd (clock world0)\<rparr>])))\<rparr>)"
    by blast+
  from r1 disk
  have ret: "returned (update_task py ''a1b2c3d4'' [(''colour'', PStr ''red''), (''priority'', PNone)] alice world0)
         = Some (True, ''Task updated successfully'')"
    by simp
  from r2 disk
  have res: "update_task py ''a1b2c3d4'' [(''colour'', PStr ''red''), (''priority'', PNone)] alice world0 =
           Ok ((True, ''Task updated successfully''),
               alice\<lparr>tasks := (tasks alice)[0 := (tasks alice ! 0)\<lparr>updated_at := shd (clock world0)\<rparr>]\<rparr>,
               world0\<lparr>clock := stl (clock world0), writes := stl (writes world0),
                 files := (files world0)(username alice :=
                    Json (map (to_dict py) ((tasks alice)[0 := (tasks alice ! 0)\<lparr>updated_at := shd (clock world0)\<rparr>])))\<rparr>)"
    by (rule mp)
  from res have "tasks_after (update_task py ''a1b2c3d4'' [(''colour'', PStr ''red''), (''priority'', PNone)] alice world0)
     = Some [milk\<lparr>updated_at := 63839700000000000\<rparr>]"
    by (simp add: tasks_after_def alice_def world0_def)
  with mixed found ret show ?thesis by simp
qed

text \<open>
  C10, as the specification states it, fails: when the disk refuses the write, a call
  that supplies only a field that is not an attribute and a field that is null reports
  failure, and no tasks file is written.
\<close>

theorem update_task_ignoring_reports_failed_save:
  "returned (update_task py ''a1b2c3d4'' [(''colour'', PStr ''red''), (''priority'', PNone)] alice world_readonly)
     = Some (False, ''Failed to save changes'')
   \<and> map_option (\<lambda>w. files w ''alice'')
        (world_after (update_task py ''a1b2c3d4'' [(''colour'', PStr ''red''), (''priority'', PNone)] alice world_readonly))
     = Some Missing"
  by (simp add: world0_def world_readonly_def milk_def alice_def py_def update_task_def
        call_error_def validate_name_def save_tasks_def save_user_tasks_def now_def hasattr_def
        attr_kind_def setattr_def returned_def world_after_def)

end
